theory Spec2Isabelle
  imports Main
begin

section \<open>JavaScript values used by the storefront\<close>

text \<open>
  The handlers of \<^verbatim>\<open>server.js\<close> compute with JavaScript numbers that come from
  two places: the JSON product collection (prices and purities, integers) and
  \<^verbatim>\<open>parseInt(s, 10)\<close> on request strings, which yields an integer or \<^verbatim>\<open>NaN\<close>.
  A number is therefore an integer or \<open>NaN\<close>. Integers are exact: the rounding of
  doubles beyond 2^53, the overflow of a digit string of several hundred digits to
  \<^verbatim>\<open>Infinity\<close> and the signed zero are outside the model.
\<close>

datatype jsnum = JNum int | NaN

text \<open>\<^verbatim>\<open>a + b\<close> and \<^verbatim>\<open>a * b\<close> on numbers: \<open>NaN\<close> is absorbing.\<close>

fun jadd :: "jsnum \<Rightarrow> jsnum \<Rightarrow> jsnum" where
  "jadd (JNum a) (JNum b) = JNum (a + b)"
| "jadd _ _ = NaN"

fun jmul :: "jsnum \<Rightarrow> jsnum \<Rightarrow> jsnum" where
  "jmul (JNum a) (JNum b) = JNum (a * b)"
| "jmul _ _ = NaN"

text \<open>\<^verbatim>\<open>a > b\<close>: every comparison with \<open>NaN\<close> is false.\<close>

fun jgt :: "jsnum \<Rightarrow> jsnum \<Rightarrow> bool" where
  "jgt (JNum a) (JNum b) = (b < a)"
| "jgt _ _ = False"

text \<open>\<^verbatim>\<open>a <= b\<close>, to say that a quantity is not positive.\<close>

fun jle :: "jsnum \<Rightarrow> jsnum \<Rightarrow> bool" where
  "jle (JNum a) (JNum b) = (a \<le> b)"
| "jle _ _ = False"

text \<open>Truthiness of a number (\<^verbatim>\<open>if (purity)\<close>): \<open>0\<close> and \<open>NaN\<close> are falsy.\<close>

fun truthy_num :: "jsnum \<Rightarrow> bool" where
  "truthy_num (JNum n) = (n \<noteq> 0)"
| "truthy_num NaN = False"

text \<open>
  \<^verbatim>\<open>x || d\<close> on an optional request string: the field is absent (\<open>None\<close>, JavaScript's
  \<^verbatim>\<open>undefined\<close>) or a string, and the empty string is falsy too.
\<close>

fun or_default :: "string option \<Rightarrow> string \<Rightarrow> string" where
  "or_default None d = d"
| "or_default (Some s) d = (if s = [] then d else s)"

text \<open>Truthiness of an optional request string (\<^verbatim>\<open>!name\<close> is its negation).\<close>

fun truthy_str :: "string option \<Rightarrow> bool" where
  "truthy_str None = False"
| "truthy_str (Some s) = (s \<noteq> [])"

subsection \<open>\<^verbatim>\<open>parseInt(s, 10)\<close>\<close>

text \<open>
  ECMAScript's \<^verbatim>\<open>parseInt\<close> with radix 10: leading white space is skipped, one sign
  is read, the longest prefix of decimal digits is the value, and no digit at all
  gives \<open>NaN\<close>. Strings are sequences of 8-bit code units here, so the white space
  is TAB, LF, VT, FF, CR, SP and NBSP.
\<close>

definition is_ws :: "char \<Rightarrow> bool" where
  "is_ws c = (of_char c \<in> {9::nat, 10, 11, 12, 13, 32, 160})"

definition is_digit :: "char \<Rightarrow> bool" where
  "is_digit c = (48 \<le> (of_char c :: nat) \<and> (of_char c :: nat) \<le> 57)"

definition digits_value :: "string \<Rightarrow> int" where
  "digits_value z = foldl (\<lambda>acc c. 10 * acc + (int (of_char c) - 48)) 0 z"

definition parseInt :: "string \<Rightarrow> jsnum" where
  "parseInt s =
     (let t = dropWhile is_ws s;
          sign = (if t \<noteq> [] \<and> hd t = CHR ''-'' then -1 else 1);
          u = (if t \<noteq> [] \<and> (hd t = CHR ''+'' \<or> hd t = CHR ''-'') then tl t else t);
          z = takeWhile is_digit u
      in if z = [] then NaN else JNum (sign * digits_value z))"

section \<open>Data model\<close>

text \<open>A record of the product collection (\<^verbatim>\<open>products.json\<close>).\<close>

record product =
  p_id :: string
  p_name :: string
  p_price :: int
  p_image :: string
  p_category :: string
  p_metal :: string
  p_carat :: int
  p_description :: string

text \<open>An entry of \<^verbatim>\<open>req.session.cart\<close>.\<close>

record cart_entry =
  productId :: string
  quantity :: jsnum

section \<open>Cart handlers\<close>

text \<open>
  \<^verbatim>\<open>req.session.cart\<close> is \<open>None\<close> until a handler assigns it; the handlers read it
  as \<^verbatim>\<open>req.session.cart || []\<close> (an array is always truthy).
\<close>

fun cart_or_empty :: "cart_entry list option \<Rightarrow> cart_entry list" where
  "cart_or_empty None = []"
| "cart_or_empty (Some c) = c"

text \<open>
  \<^verbatim>\<open>existing.quantity += qty\<close> on the first entry with the product id
  (\<^verbatim>\<open>Array.prototype.find\<close>), or \<^verbatim>\<open>push\<close> when there is none.
\<close>

fun add_entry :: "cart_entry list \<Rightarrow> string \<Rightarrow> jsnum \<Rightarrow> cart_entry list" where
  "add_entry [] pid qty = [\<lparr>productId = pid, quantity = qty\<rparr>]"
| "add_entry (e # es) pid qty =
     (if productId e = pid then e\<lparr>quantity := jadd (quantity e) qty\<rparr> # es
      else e # add_entry es pid qty)"

text \<open>\<^verbatim>\<open>POST /cart/add/:id\<close>: the new value of \<^verbatim>\<open>req.session.cart\<close>.\<close>

definition post_cart_add :: "cart_entry list option \<Rightarrow> string \<Rightarrow> string option \<Rightarrow> cart_entry list" where
  "post_cart_add cart pid body_quantity =
     (let qty = parseInt (or_default body_quantity ''1'')
      in add_entry (cart_or_empty cart) pid qty)"

text \<open>\<^verbatim>\<open>POST /cart/remove/:id\<close>: the new value of \<^verbatim>\<open>req.session.cart\<close>.\<close>

definition post_cart_remove :: "cart_entry list option \<Rightarrow> string \<Rightarrow> cart_entry list" where
  "post_cart_remove cart pid = filter (\<lambda>item. productId item \<noteq> pid) (cart_or_empty cart)"

text \<open>
  \<^verbatim>\<open>quantities[item.productId]\<close> reads a property of an object. The submitted map is
  an object from product ids to strings, either the literal \<^verbatim>\<open>{}\<close> or the object
  the body parser built, and both inherit from \<^verbatim>\<open>Object.prototype\<close>. So a key the
  object owns gives its string, a key it does not own but \<^verbatim>\<open>Object.prototype\<close> has
  gives the inherited value (a function, or the prototype object for
  \<^verbatim>\<open>__proto__\<close>), and any other key gives \<^verbatim>\<open>undefined\<close>.
\<close>

datatype property = Undefined | Own string | Inherited string

definition object_prototype_keys :: "string list" where
  "object_prototype_keys =
     [''constructor'', ''__defineGetter__'', ''__defineSetter__'', ''hasOwnProperty'',
      ''__lookupGetter__'', ''__lookupSetter__'', ''isPrototypeOf'', ''propertyIsEnumerable'',
      ''toString'', ''valueOf'', ''__proto__'', ''toLocaleString'']"

definition get_property :: "(string \<rightharpoonup> string) \<Rightarrow> string \<Rightarrow> property" where
  "get_property obj k =
     (case obj k of
        Some s \<Rightarrow> Own s
      | None \<Rightarrow> if k \<in> set object_prototype_keys then Inherited k else Undefined)"

text \<open>
  The text \<^verbatim>\<open>parseInt\<close> sees for an inherited value: that of the prototype object,
  or the source text of a built-in function.
\<close>

definition inherited_text :: "string \<Rightarrow> string" where
  "inherited_text k =
     (if k = ''__proto__'' then ''[object Object]''
      else if k = ''constructor'' then ''function Object() { [native code] }''
      else ''function '' @ k @ ''() { [native code] }'')"

text \<open>
  The body of the \<^verbatim>\<open>forEach\<close> of \<^verbatim>\<open>POST /cart/update\<close>.
  \<^verbatim>\<open>if (quantities[item.productId])\<close> is false for \<^verbatim>\<open>undefined\<close> and for the empty
  string, and true for every other string and for an inherited value.
\<close>

definition update_entry :: "(string \<rightharpoonup> string) \<Rightarrow> cart_entry \<Rightarrow> cart_entry" where
  "update_entry quantities item =
     (case get_property quantities (productId item) of
        Undefined \<Rightarrow> item
      | Own s \<Rightarrow>
          if s = [] then item
          else (let newQty = parseInt s
                in item\<lparr>quantity := (if jgt newQty (JNum 0) then newQty else JNum 1)\<rparr>)
      | Inherited k \<Rightarrow>
          (let newQty = parseInt (inherited_text k)
           in item\<lparr>quantity := (if jgt newQty (JNum 0) then newQty else JNum 1)\<rparr>))"

text \<open>
  \<^verbatim>\<open>req.body.quantity || {}\<close>: the submitted map, empty when the field is absent. The
  field is taken to be a map from product ids to strings, as the cart form sends it.
\<close>

fun quantities_of :: "(string \<rightharpoonup> string) option \<Rightarrow> (string \<rightharpoonup> string)" where
  "quantities_of None = Map.empty"
| "quantities_of (Some m) = m"

text \<open>\<^verbatim>\<open>POST /cart/update\<close>: the new value of \<^verbatim>\<open>req.session.cart\<close>.\<close>

definition post_cart_update ::
  "cart_entry list option \<Rightarrow> (string \<rightharpoonup> string) option \<Rightarrow> cart_entry list" where
  "post_cart_update cart body_quantity =
     (let quantities = quantities_of body_quantity
      in map (update_entry quantities) (cart_or_empty cart))"

section \<open>Materializing the cart\<close>

text \<open>\<^verbatim>\<open>products.find((p) => p.id === id)\<close>: the first product with the id.\<close>

definition find_product :: "product list \<Rightarrow> string \<Rightarrow> product option" where
  "find_product products pid = List.find (\<lambda>p. p_id p = pid) products"

text \<open>
  \<^verbatim>\<open>.filter(Boolean)\<close> on the array that \<^verbatim>\<open>map\<close> returns, whose elements are
  objects or \<^verbatim>\<open>null\<close> (here \<open>None\<close>): the objects stay, in order.
\<close>

fun filter_Boolean :: "'a option list \<Rightarrow> 'a list" where
  "filter_Boolean [] = []"
| "filter_Boolean (None # xs) = filter_Boolean xs"
| "filter_Boolean (Some x # xs) = x # filter_Boolean xs"

text \<open>A line item of the cart and checkout views: a reference to the product.\<close>

record line_item =
  li_product :: product
  li_quantity :: jsnum
  lineTotal :: jsnum

text \<open>
  The \<^verbatim>\<open>detailedCart\<close> of \<^verbatim>\<open>GET /cart\<close>, \<^verbatim>\<open>GET /checkout\<close> and the failure branch of
  \<^verbatim>\<open>POST /checkout\<close> (the same text in the three handlers), and its \<^verbatim>\<open>reduce\<close>.
\<close>

definition detailedCart :: "product list \<Rightarrow> cart_entry list \<Rightarrow> line_item list" where
  "detailedCart products cart =
     filter_Boolean (map (\<lambda>item.
        case find_product products (productId item) of
          None \<Rightarrow> None
        | Some product \<Rightarrow>
            Some \<lparr>li_product = product, li_quantity = quantity item,
                  lineTotal = jmul (JNum (p_price product)) (quantity item)\<rparr>) cart)"

definition cart_total :: "line_item list \<Rightarrow> jsnum" where
  "cart_total items = foldl (\<lambda>sum item. jadd sum (lineTotal item)) (JNum 0) items"

text \<open>An item of an order: copies of the product's fields, no reference.\<close>

record order_item =
  oi_productId :: string
  oi_name :: string
  oi_price :: int
  oi_quantity :: jsnum

text \<open>The \<^verbatim>\<open>detailedCart\<close> of the success branch of \<^verbatim>\<open>POST /checkout\<close>, and its total.\<close>

definition snapshotCart :: "product list \<Rightarrow> cart_entry list \<Rightarrow> order_item list" where
  "snapshotCart products cart =
     filter_Boolean (map (\<lambda>item.
        case find_product products (productId item) of
          None \<Rightarrow> None
        | Some product \<Rightarrow>
            Some \<lparr>oi_productId = p_id product, oi_name = p_name product,
                  oi_price = p_price product, oi_quantity = quantity item\<rparr>) cart)"

definition order_total :: "order_item list \<Rightarrow> jsnum" where
  "order_total items =
     foldl (\<lambda>sum item. jadd sum (jmul (JNum (oi_price item)) (oi_quantity item))) (JNum 0) items"

section \<open>Sessions, the record store and responses\<close>

record session_user =
  u_id :: string
  u_name :: string
  u_email :: "string option"
  u_phone :: "string option"

text \<open>
  The session as a handler reads and writes it during one request. What the
  session store does to it between requests (it keeps JSON text, in which \<open>NaN\<close>
  becomes \<^verbatim>\<open>null\<close>) is outside the model.
\<close>

record session =
  user :: "session_user option"
  cart :: "cart_entry list option"

text \<open>
  An order as \<^verbatim>\<open>POST /checkout\<close> builds it. The shipping fields hold the request's
  values as they are (a string, or \<open>None\<close> for \<^verbatim>\<open>undefined\<close>).
\<close>

record order =
  o_id :: string
  userId :: string
  customerName :: "string option"
  o_phone :: "string option"
  address :: "string option"
  city :: "string option"
  pincode :: "string option"
  paymentMethod :: "string option"
  items :: "order_item list"
  total :: jsnum
  status :: string
  createdAt :: string

text \<open>
  The collections as \<^verbatim>\<open>readJson\<close> returns them and \<^verbatim>\<open>writeJson\<close> stores them. The
  handlers are modelled on loaded collections: a write is the new collection. A
  write that fails in the file system and the text that \<^verbatim>\<open>JSON.stringify\<close> produces
  (it writes \<open>NaN\<close> as \<^verbatim>\<open>null\<close>) are outside the model.
\<close>

record store =
  products_file :: "product list"
  orders_file :: "order list"

record checkout_body =
  b_name :: "string option"
  b_phone :: "string option"
  b_address :: "string option"
  b_city :: "string option"
  b_pincode :: "string option"
  b_paymentMethod :: "string option"

record metal_list_view =
  pageTitle :: string
  heading :: string
  subtitle :: string
  metal :: string
  caratFilter :: jsnum
  products :: "product list"

text \<open>
  What a handler answers: a redirect, or a view with its locals (the constant
  \<^verbatim>\<open>pageTitle\<close> of the cart, checkout and orders views is left out).
\<close>

datatype response =
    Redirect string
  | Render_cart "line_item list" jsnum
  | Render_checkout "line_item list" jsnum "string option"
  | Render_metal_list metal_list_view
  | Render_orders "order list"

section \<open>Catalogue pages\<close>

text \<open>\<^verbatim>\<open>p.carat === purity\<close> on numbers.\<close>

fun strict_eq :: "jsnum \<Rightarrow> jsnum \<Rightarrow> bool" where
  "strict_eq (JNum a) (JNum b) = (a = b)"
| "strict_eq _ _ = False"

text \<open>
  The three metal pages differ in the metal and the texts only; their common part
  gives \<^verbatim>\<open>purity\<close> and \<^verbatim>\<open>list\<close>.
\<close>

definition metal_filter :: "string \<Rightarrow> product list \<Rightarrow> string option \<Rightarrow> jsnum \<times> product list" where
  "metal_filter m prods query_carat =
     (let purity = parseInt (or_default query_carat ''0'');
          list = filter (\<lambda>p. p_metal p = m) prods;
          list = (if truthy_num purity
                  then filter (\<lambda>p. strict_eq (JNum (p_carat p)) purity) list else list)
      in (purity, list))"

definition get_gold :: "store \<Rightarrow> string option \<Rightarrow> response" where
  "get_gold st query_carat =
     (let (purity, list) = metal_filter ''Gold'' (products_file st) query_carat
      in Render_metal_list
           \<lparr>pageTitle = ''Gold Jewellery'', heading = ''Gold Collection'',
            subtitle = ''Explore 24K, 22K and 18K inspired gold designs crafted for every occasion.'',
            metal = ''Gold'', caratFilter = purity, products = list\<rparr>)"

definition get_silver :: "store \<Rightarrow> string option \<Rightarrow> response" where
  "get_silver st query_carat =
     (let (purity, list) = metal_filter ''Silver'' (products_file st) query_carat
      in Render_metal_list
           \<lparr>pageTitle = ''Silver Jewellery'', heading = ''Silver Collection'',
            subtitle = ''Soft, versatile silver pieces for daily wear and gifting.'',
            metal = ''Silver'', caratFilter = purity, products = list\<rparr>)"

definition get_diamond :: "store \<Rightarrow> string option \<Rightarrow> response" where
  "get_diamond st query_carat =
     (let (purity, list) = metal_filter ''Diamond'' (products_file st) query_carat
      in Render_metal_list
           \<lparr>pageTitle = ''Diamond Jewellery'', heading = ''Diamond Collection'',
            subtitle = ''Shimmering diamond-inspired designs to mark your milestones.'',
            metal = ''Diamond'', caratFilter = purity, products = list\<rparr>)"

section \<open>Cart view, checkout and orders\<close>

definition get_cart :: "store \<Rightarrow> session \<Rightarrow> response" where
  "get_cart st sess =
     (let prods = products_file st;
          c = cart_or_empty (cart sess);
          dc = detailedCart prods c;
          t = cart_total dc
      in Render_cart dc t)"

text \<open>\<^verbatim>\<open>GET /checkout\<close>, behind \<^verbatim>\<open>requireLogin\<close>.\<close>

definition get_checkout :: "store \<Rightarrow> session \<Rightarrow> response" where
  "get_checkout st sess =
     (case user sess of
        None \<Rightarrow> Redirect ''/login''
      | Some u \<Rightarrow>
          (let prods = products_file st;
               c = cart_or_empty (cart sess)
           in if length c = 0 then Redirect ''/cart''
              else (let dc = detailedCart prods c;
                        t = cart_total dc
                    in Render_checkout dc t None)))"

text \<open>
  The test of \<^verbatim>\<open>POST /checkout\<close>:
  \<^verbatim>\<open>!name || !phone || !address || !city || !pincode || !paymentMethod\<close>.
\<close>

definition field_missing :: "checkout_body \<Rightarrow> bool" where
  "field_missing body =
     (\<not> truthy_str (b_name body) \<or> \<not> truthy_str (b_phone body) \<or> \<not> truthy_str (b_address body)
      \<or> \<not> truthy_str (b_city body) \<or> \<not> truthy_str (b_pincode body)
      \<or> \<not> truthy_str (b_paymentMethod body))"

text \<open>
  The \<^verbatim>\<open>newOrder\<close> object of \<^verbatim>\<open>POST /checkout\<close>. The clock is an input: \<open>now\<close> is
  the decimal text of \<^verbatim>\<open>Date.now()\<close> and \<open>created\<close> the text of
  \<^verbatim>\<open>new Date().toISOString()\<close>.
\<close>

definition newOrder ::
  "string \<Rightarrow> string \<Rightarrow> checkout_body \<Rightarrow> session_user \<Rightarrow> order_item list \<Rightarrow> jsnum \<Rightarrow> order" where
  "newOrder now created body u dc t =
     \<lparr>o_id = ''O'' @ now, userId = u_id u,
      customerName = b_name body, o_phone = b_phone body,
      address = b_address body, city = b_city body,
      pincode = b_pincode body, paymentMethod = b_paymentMethod body,
      items = dc, total = t, status = ''Pending'', createdAt = created\<rparr>"

text \<open>
  \<^verbatim>\<open>POST /checkout\<close>, behind \<^verbatim>\<open>requireLogin\<close>. The result is the response, the
  session and the store after the request.
\<close>

definition post_checkout ::
  "string \<Rightarrow> string \<Rightarrow> checkout_body \<Rightarrow> store \<Rightarrow> session \<Rightarrow> response \<times> session \<times> store" where
  "post_checkout now created body st sess =
     (case user sess of
        None \<Rightarrow> (Redirect ''/login'', sess, st)
      | Some u \<Rightarrow>
          (let prods = products_file st;
               c = cart_or_empty (cart sess)
           in if field_missing body then
                (let dc = detailedCart prods c;
                     t = cart_total dc
                 in (Render_checkout dc t (Some ''Please fill all fields.''), sess, st))
              else
                (let dc = snapshotCart prods c;
                     t = order_total dc;
                     orders = orders_file st
                 in (Redirect ''/orders'', sess\<lparr>cart := Some []\<rparr>,
                     st\<lparr>orders_file := orders @ [newOrder now created body u dc t]\<rparr>))))"

text \<open>\<^verbatim>\<open>GET /orders\<close>, behind \<^verbatim>\<open>requireLogin\<close>.\<close>

definition get_orders :: "store \<Rightarrow> session \<Rightarrow> response" where
  "get_orders st sess =
     (case user sess of
        None \<Rightarrow> Redirect ''/login''
      | Some u \<Rightarrow> Render_orders (filter (\<lambda>ord. userId ord = u_id u) (orders_file st)))"

section \<open>Loading a collection\<close>

text \<open>
  \<^verbatim>\<open>readJson\<close>. The file is its text, or \<open>None\<close> when \<^verbatim>\<open>fs.readFileSync\<close> throws.
  \<^verbatim>\<open>JSON.parse\<close> belongs to the platform and is a parameter: it returns the parsed
  collection, or \<open>None\<close> when it throws on malformed text. Either exception is
  caught and gives the empty array.
\<close>

definition readJson :: "(string \<Rightarrow> 'a list option) \<Rightarrow> string option \<Rightarrow> 'a list" where
  "readJson json_parse file =
     (case file of
        None \<Rightarrow> []
      | Some raw \<Rightarrow>
          (case json_parse (if raw = [] then ''[]'' else raw) of
             None \<Rightarrow> []
           | Some data \<Rightarrow> data))"

section \<open>Notions of the specification\<close>

text \<open>
  What an entry contributes to the materialized cart in the words of the
  specification: one line item when the collection holds a product with its
  product id (the first such product, in storage order), nothing when it holds
  none. The collection is read directly, not through the handler's lookup.
\<close>

definition line_of :: "product list \<Rightarrow> cart_entry \<Rightarrow> line_item list" where
  "line_of prods e =
     (case filter (\<lambda>p. p_id p = productId e) prods of
        [] \<Rightarrow> []
      | p # _ \<Rightarrow> [\<lparr>li_product = p, li_quantity = quantity e,
                    lineTotal = jmul (JNum (p_price p)) (quantity e)\<rparr>])"

text \<open>The sum of a sequence of numbers, from 0.\<close>

definition js_sum :: "jsnum list \<Rightarrow> jsnum" where
  "js_sum xs = foldr jadd xs (JNum 0)"

text \<open>The integer a number holds (0 where there is none).\<close>

fun int_of :: "jsnum \<Rightarrow> int" where
  "int_of (JNum n) = n"
| "int_of NaN = 0"

text \<open>
  The amount of an entry: price times quantity, and zero for a dangling entry.
\<close>

definition entry_amount :: "product list \<Rightarrow> cart_entry \<Rightarrow> int" where
  "entry_amount prods e =
     (case filter (\<lambda>p. p_id p = productId e) prods of
        [] \<Rightarrow> 0
      | p # _ \<Rightarrow> p_price p * int_of (quantity e))"

text \<open>The fields an order item copies from a product and a cart entry.\<close>

definition copy_of :: "product list \<Rightarrow> cart_entry \<Rightarrow> order_item list" where
  "copy_of prods e =
     (case find_product prods (productId e) of
        None \<Rightarrow> []
      | Some p \<Rightarrow> [\<lparr>oi_productId = p_id p, oi_name = p_name p, oi_price = p_price p,
                     oi_quantity = quantity e\<rparr>])"

text \<open>A quantity as the data model wants it: an integer, at least 1.\<close>

fun valid_quantity :: "jsnum \<Rightarrow> bool" where
  "valid_quantity (JNum n) = (1 \<le> n)"
| "valid_quantity NaN = False"

section \<open>A sample catalogue and session\<close>

text \<open>The first product of \<^verbatim>\<open>seedProducts\<close>, a logged-in user and a cart with a dangling entry.\<close>

definition sample_product :: product where
  "sample_product =
     \<lparr>p_id = ''G24N001'', p_name = ''24K Royal Heritage Necklace'', p_price = 54999,
      p_image = ''/images/gold-necklace-24k.jpg'', p_category = ''Necklace'',
      p_metal = ''Gold'', p_carat = 24, p_description = ''''\<rparr>"

definition sample_store :: store where
  "sample_store = \<lparr>products_file = [sample_product], orders_file = []\<rparr>"

definition sample_user :: session_user where
  "sample_user = \<lparr>u_id = ''U1'', u_name = ''Asha'', u_email = Some ''asha@example.com'', u_phone = None\<rparr>"

definition sample_session :: session where
  "sample_session =
     \<lparr>user = Some sample_user,
      cart = Some [\<lparr>productId = ''G24N001'', quantity = JNum 2\<rparr>,
                   \<lparr>productId = ''GONE'', quantity = JNum 1\<rparr>]\<rparr>"

text \<open>A complete checkout form.\<close>

definition sample_body :: checkout_body where
  "sample_body =
     \<lparr>b_name = Some ''Asha'', b_phone = Some ''9999999999'', b_address = Some ''12 MG Road'',
      b_city = Some ''Indore'', b_pincode = Some ''452001'', b_paymentMethod = Some ''COD''\<rparr>"

text \<open>A stand-in for \<^verbatim>\<open>JSON.parse\<close> that knows two texts and rejects the rest.\<close>

definition sample_parse :: "string \<Rightarrow> nat list option" where
  "sample_parse s = (if s = ''[]'' then Some [] else if s = ''[7]'' then Some [7] else None)"

text \<open>The catalogue after the price and the name of a product were edited.\<close>

definition edit_product :: "string \<Rightarrow> string \<Rightarrow> int \<Rightarrow> product list \<Rightarrow> product list" where
  "edit_product pid new_name new_price prods =
     map (\<lambda>p. if p_id p = pid then p\<lparr>p_name := new_name, p_price := new_price\<rparr> else p) prods"

section \<open>Sums of line totals\<close>

lemma jadd_assoc: "jadd (jadd a b) c = jadd a (jadd b c)"
  by (cases a; cases b; cases c) simp_all

lemma jadd_zero_left: "jadd (JNum 0) a = a"
  by (cases a) simp_all

lemma jadd_zero_right: "jadd a (JNum 0) = a"
  by (cases a) simp_all

lemma foldl_jadd_shift: "foldl (\<lambda>s x. jadd s (f x)) (jadd a b) xs = jadd a (foldl (\<lambda>s x. jadd s (f x)) b xs)"
  by (induction xs arbitrary: b) (simp_all add: jadd_assoc)

lemma foldl_jadd_js_sum: "foldl (\<lambda>s x. jadd s (f x)) (JNum 0) xs = js_sum (map f xs)"
proof (induction xs)
  case Nil
  show ?case by (simp add: js_sum_def)
next
  case (Cons x xs)
  have "foldl (\<lambda>s x. jadd s (f x)) (JNum 0) (x # xs) = foldl (\<lambda>s x. jadd s (f x)) (jadd (f x) (JNum 0)) xs"
    by (simp add: jadd_zero_left jadd_zero_right)
  also have "\<dots> = jadd (f x) (foldl (\<lambda>s x. jadd s (f x)) (JNum 0) xs)"
    by (rule foldl_jadd_shift)
  finally show ?case using Cons by (simp add: js_sum_def)
qed

text \<open>The handler's lookup against the contents of the collection.\<close>

lemma find_product_filter:
  "find_product prods pid =
     (case filter (\<lambda>p. p_id p = pid) prods of [] \<Rightarrow> None | p # _ \<Rightarrow> Some p)"
  by (induction prods) (simp_all add: find_product_def)

lemma find_product_None_iff: "find_product prods pid = None \<longleftrightarrow> pid \<notin> p_id ` set prods"
  by (auto simp: find_product_def find_None_iff)

lemma line_of_find:
  "line_of prods e =
     (case find_product prods (productId e) of
        None \<Rightarrow> []
      | Some p \<Rightarrow> [\<lparr>li_product = p, li_quantity = quantity e,
                     lineTotal = jmul (JNum (p_price p)) (quantity e)\<rparr>])"
  by (simp add: line_of_def find_product_filter split: list.split)

lemma entry_amount_find:
  "entry_amount prods e =
     (case find_product prods (productId e) of
        None \<Rightarrow> 0
      | Some p \<Rightarrow> p_price p * int_of (quantity e))"
  by (simp add: entry_amount_def find_product_filter split: list.split)

lemma line_of_absent: "productId e \<notin> p_id ` set prods \<Longrightarrow> line_of prods e = []"
proof -
  assume "productId e \<notin> p_id ` set prods"
  then have "find_product prods (productId e) = None"
    by (simp add: find_product_None_iff)
  then show ?thesis by (simp add: line_of_find)
qed

lemma line_of_present:
  "productId e \<in> p_id ` set prods \<Longrightarrow>
   map (\<lambda>i. (p_id (li_product i), li_quantity i)) (line_of prods e) = [(productId e, quantity e)]
   \<and> li_product ` set (line_of prods e) \<subseteq> set prods"
proof -
  assume "productId e \<in> p_id ` set prods"
  then obtain p ps where f: "filter (\<lambda>p. p_id p = productId e) prods = p # ps"
    by (cases "filter (\<lambda>p. p_id p = productId e) prods") (auto simp: filter_empty_conv)
  then have "p \<in> set (filter (\<lambda>p. p_id p = productId e) prods)" by simp
  then have "p \<in> set prods \<and> p_id p = productId e" by simp
  with f show ?thesis by (simp add: line_of_def)
qed

lemma surviving_entries:
  "map (\<lambda>i. (p_id (li_product i), li_quantity i)) (concat (map (line_of prods) c))
     = map (\<lambda>e. (productId e, quantity e)) (filter (\<lambda>e. productId e \<in> p_id ` set prods) c)"
  by (induction c) (simp_all add: line_of_absent line_of_present)

lemma surviving_products: "li_product ` set (concat (map (line_of prods) c)) \<subseteq> set prods"
proof (induction c)
  case Nil
  show ?case by simp
next
  case (Cons e es)
  have "li_product ` set (line_of prods e) \<subseteq> set prods"
    by (cases "productId e \<in> p_id ` set prods") (simp_all add: line_of_absent line_of_present)
  with Cons show ?case by (simp add: image_Un)
qed

lemma detailedCart_Nil: "detailedCart prods [] = []"
  by (simp add: detailedCart_def)

lemma detailedCart_Cons: "detailedCart prods (e # es) = line_of prods e @ detailedCart prods es"
  by (simp add: detailedCart_def line_of_find split: option.split)

lemma detailedCart_concat: "detailedCart prods c = concat (map (line_of prods) c)"
  by (induction c) (simp_all add: detailedCart_Nil detailedCart_Cons)

lemma detailedCart_dangling:
  "(\<forall>e \<in> set c. productId e \<notin> p_id ` set prods) \<Longrightarrow> detailedCart prods c = []"
  by (induction c) (simp_all add: detailedCart_Nil detailedCart_Cons line_of_absent)

lemma js_sum_append: "js_sum (xs @ ys) = jadd (js_sum xs) (js_sum ys)"
  by (induction xs) (simp_all add: js_sum_def jadd_zero_left jadd_assoc)

lemma js_sum_line_of:
  "quantity e \<noteq> NaN \<Longrightarrow> js_sum (map lineTotal (line_of prods e)) = JNum (entry_amount prods e)"
  by (cases "quantity e") (simp_all add: line_of_find entry_amount_find js_sum_def split: option.split)

lemma cart_total_int:
  "(\<forall>e \<in> set c. quantity e \<noteq> NaN) \<Longrightarrow>
   js_sum (map lineTotal (detailedCart prods c)) = JNum (\<Sum>e\<leftarrow>c. entry_amount prods e)"
  by (induction c) (simp_all add: detailedCart_Nil detailedCart_Cons js_sum_append js_sum_line_of, simp add: js_sum_def)

text \<open>
  Claim C1. \<^verbatim>\<open>GET /cart\<close> renders one line item for each cart entry whose product id is
  the id of a product of the collection, in cart order, holding that product (the
  first with the id), the entry's quantity and \<open>lineTotal = price * quantity\<close>; an
  entry whose product id is the id of no product of the collection gives no line
  item and no error. The total is the sum of the line totals of the surviving
  items, \<open>0\<close> for an empty or fully dangling cart; and when no quantity is \<open>NaN\<close> the
  total is the integer sum of price times quantity over the entries, a dangling
  entry counting zero.
\<close>

theorem cart_view_materializes:
  "get_cart st sess =
     Render_cart (concat (map (line_of (products_file st)) (cart_or_empty (cart sess))))
                 (js_sum (map lineTotal (concat (map (line_of (products_file st)) (cart_or_empty (cart sess))))))
   \<and> map (\<lambda>i. (p_id (li_product i), li_quantity i))
         (concat (map (line_of (products_file st)) (cart_or_empty (cart sess))))
       = map (\<lambda>e. (productId e, quantity e))
           (filter (\<lambda>e. productId e \<in> p_id ` set (products_file st)) (cart_or_empty (cart sess)))
   \<and> li_product ` set (concat (map (line_of (products_file st)) (cart_or_empty (cart sess))))
       \<subseteq> set (products_file st)
   \<and> (\<forall>i \<in> set (concat (map (line_of (products_file st)) (cart_or_empty (cart sess)))).
         lineTotal i = jmul (JNum (p_price (li_product i))) (li_quantity i))
   \<and> ((\<forall>e \<in> set (cart_or_empty (cart sess)). productId e \<notin> p_id ` set (products_file st))
        \<longrightarrow> get_cart st sess = Render_cart [] (JNum 0))
   \<and> ((\<forall>e \<in> set (cart_or_empty (cart sess)). quantity e \<noteq> NaN)
        \<longrightarrow> js_sum (map lineTotal (concat (map (line_of (products_file st)) (cart_or_empty (cart sess)))))
            = JNum (\<Sum>e\<leftarrow>cart_or_empty (cart sess). entry_amount (products_file st) e))"
proof (intro conjI impI)
  show "get_cart st sess =
     Render_cart (concat (map (line_of (products_file st)) (cart_or_empty (cart sess))))
                 (js_sum (map lineTotal (concat (map (line_of (products_file st)) (cart_or_empty (cart sess))))))"
    by (simp add: get_cart_def Let_def cart_total_def foldl_jadd_js_sum detailedCart_concat)
  show "map (\<lambda>i. (p_id (li_product i), li_quantity i))
         (concat (map (line_of (products_file st)) (cart_or_empty (cart sess))))
       = map (\<lambda>e. (productId e, quantity e))
           (filter (\<lambda>e. productId e \<in> p_id ` set (products_file st)) (cart_or_empty (cart sess)))"
    by (rule surviving_entries)
  show "li_product ` set (concat (map (line_of (products_file st)) (cart_or_empty (cart sess))))
       \<subseteq> set (products_file st)"
    by (rule surviving_products)
  show "\<forall>i \<in> set (concat (map (line_of (products_file st)) (cart_or_empty (cart sess)))).
         lineTotal i = jmul (JNum (p_price (li_product i))) (li_quantity i)"
    by (auto simp: line_of_def split: list.splits)
  {
    assume "\<forall>e \<in> set (cart_or_empty (cart sess)). productId e \<notin> p_id ` set (products_file st)"
    then have "detailedCart (products_file st) (cart_or_empty (cart sess)) = []"
      by (rule detailedCart_dangling)
    then show "get_cart st sess = Render_cart [] (JNum 0)"
      by (simp add: get_cart_def Let_def cart_total_def)
  }
  {
    assume "\<forall>e \<in> set (cart_or_empty (cart sess)). quantity e \<noteq> NaN"
    then show "js_sum (map lineTotal (concat (map (line_of (products_file st)) (cart_or_empty (cart sess)))))
            = JNum (\<Sum>e\<leftarrow>cart_or_empty (cart sess). entry_amount (products_file st) e)"
      using cart_total_int[of "cart_or_empty (cart sess)" "products_file st"]
      by (simp add: detailedCart_concat)
  }
qed

theorem cart_view_materializes_witness:
  "get_cart sample_store sample_session =
     Render_cart [\<lparr>li_product = sample_product, li_quantity = JNum 2, lineTotal = JNum 109998\<rparr>]
                 (JNum 109998)
   \<and> get_cart sample_store (sample_session\<lparr>cart := Some [\<lparr>productId = ''GONE'', quantity = JNum 1\<rparr>]\<rparr>)
       = Render_cart [] (JNum 0)"
  using cart_view_materializes [of sample_store sample_session]
    cart_view_materializes [of sample_store "sample_session\<lparr>cart := Some [\<lparr>productId = ''GONE'', quantity = JNum 1\<rparr>]\<rparr>"]
  by (simp add: sample_store_def sample_session_def sample_product_def line_of_def
      js_sum_def entry_amount_def)

section \<open>Checkout\<close>

lemma post_checkout_ok:
  "user sess = Some u \<Longrightarrow> \<not> field_missing body \<Longrightarrow>
   post_checkout now created body st sess =
     (Redirect ''/orders'', sess\<lparr>cart := Some []\<rparr>,
      st\<lparr>orders_file := orders_file st @
           [newOrder now created body u
              (snapshotCart (products_file st) (cart_or_empty (cart sess)))
              (order_total (snapshotCart (products_file st) (cart_or_empty (cart sess))))]\<rparr>)"
  by (simp add: post_checkout_def Let_def)

lemma post_checkout_missing:
  "user sess = Some u \<Longrightarrow> field_missing body \<Longrightarrow>
   post_checkout now created body st sess =
     (Render_checkout (detailedCart (products_file st) (cart_or_empty (cart sess)))
        (cart_total (detailedCart (products_file st) (cart_or_empty (cart sess))))
        (Some ''Please fill all fields.''), sess, st)"
  by (simp add: post_checkout_def Let_def)

lemma field_missing_iff:
  "field_missing body \<longleftrightarrow>
     (\<exists>f \<in> set [b_name body, b_phone body, b_address body, b_city body, b_pincode body,
                 b_paymentMethod body]. f = None \<or> f = Some [])"
proof -
  have t: "\<And>f. (\<not> truthy_str f) = (f = None \<or> f = Some [])"
    by (case_tac f) simp_all
  show ?thesis by (simp add: field_missing_def t)
qed

text \<open>
  Claim C2. For a logged-in session, \<^verbatim>\<open>POST /checkout\<close> with the six fields present and
  non-empty appends one order, assigns the empty cart and redirects to the orders
  page; with a field absent or empty it renders the checkout view with the
  materialized line items, their total and the message, and leaves the session
  (hence the cart) and the store (hence the order collection) as they were. So a
  non-empty cart is empty afterwards if and only if no field was missing.
\<close>

theorem checkout_clears_cart_iff_fields:
  assumes "user sess = Some u"
  shows "(\<not> field_missing body \<longrightarrow>
            post_checkout now created body st sess =
              (Redirect ''/orders'', sess\<lparr>cart := Some []\<rparr>,
               st\<lparr>orders_file := orders_file st @
                    [newOrder now created body u
                       (snapshotCart (products_file st) (cart_or_empty (cart sess)))
                       (order_total (snapshotCart (products_file st) (cart_or_empty (cart sess))))]\<rparr>))
       \<and> (field_missing body \<longrightarrow>
            post_checkout now created body st sess =
              (Render_checkout (detailedCart (products_file st) (cart_or_empty (cart sess)))
                 (cart_total (detailedCart (products_file st) (cart_or_empty (cart sess))))
                 (Some ''Please fill all fields.''), sess, st))
       \<and> (cart_or_empty (cart sess) \<noteq> [] \<longrightarrow>
            (cart_or_empty (cart (fst (snd (post_checkout now created body st sess)))) = []
               \<longleftrightarrow> \<not> field_missing body))
       \<and> (field_missing body \<longleftrightarrow>
            (\<exists>f \<in> set [b_name body, b_phone body, b_address body, b_city body, b_pincode body,
                        b_paymentMethod body]. f = None \<or> f = Some []))"
proof (intro conjI impI)
  assume "\<not> field_missing body"
  with assms show "post_checkout now created body st sess =
              (Redirect ''/orders'', sess\<lparr>cart := Some []\<rparr>,
               st\<lparr>orders_file := orders_file st @
                    [newOrder now created body u
                       (snapshotCart (products_file st) (cart_or_empty (cart sess)))
                       (order_total (snapshotCart (products_file st) (cart_or_empty (cart sess))))]\<rparr>)"
    by (rule post_checkout_ok)
next
  assume "field_missing body"
  with assms show "post_checkout now created body st sess =
              (Render_checkout (detailedCart (products_file st) (cart_or_empty (cart sess)))
                 (cart_total (detailedCart (products_file st) (cart_or_empty (cart sess))))
                 (Some ''Please fill all fields.''), sess, st)"
    by (rule post_checkout_missing)
next
  assume ne: "cart_or_empty (cart sess) \<noteq> []"
  show "cart_or_empty (cart (fst (snd (post_checkout now created body st sess)))) = []
               \<longleftrightarrow> \<not> field_missing body"
  proof (cases "field_missing body")
    case True
    with assms ne show ?thesis by (simp add: post_checkout_missing)
  next
    case False
    with assms show ?thesis by (simp add: post_checkout_ok)
  qed
next
  show "field_missing body \<longleftrightarrow>
            (\<exists>f \<in> set [b_name body, b_phone body, b_address body, b_city body, b_pincode body,
                        b_paymentMethod body]. f = None \<or> f = Some [])"
    by (rule field_missing_iff)
qed

theorem checkout_clears_cart_iff_fields_witness:
  "post_checkout ''1700000000000'' ''2023-11-14T22:13:20.000Z'' sample_body sample_store sample_session =
     (Redirect ''/orders'', sample_session\<lparr>cart := Some []\<rparr>,
      sample_store\<lparr>orders_file :=
        [newOrder ''1700000000000'' ''2023-11-14T22:13:20.000Z'' sample_body sample_user
           [\<lparr>oi_productId = ''G24N001'', oi_name = ''24K Royal Heritage Necklace'',
             oi_price = 54999, oi_quantity = JNum 2\<rparr>] (JNum 109998)]\<rparr>)
   \<and> post_checkout ''1700000000000'' ''2023-11-14T22:13:20.000Z'' (sample_body\<lparr>b_address := Some ''''\<rparr>)
       sample_store sample_session =
     (Render_checkout
        [\<lparr>li_product = sample_product, li_quantity = JNum 2, lineTotal = JNum 109998\<rparr>]
        (JNum 109998) (Some ''Please fill all fields.''), sample_session, sample_store)"
proof -
  have u: "user sample_session = Some sample_user"
    by (simp add: sample_session_def)
  have ok: "\<not> field_missing sample_body"
    by (simp add: field_missing_def sample_body_def)
  have bad: "field_missing (sample_body\<lparr>b_address := Some ''''\<rparr>)"
    by (simp add: field_missing_def sample_body_def)
  have s: "snapshotCart (products_file sample_store) (cart_or_empty (cart sample_session))
      = [\<lparr>oi_productId = ''G24N001'', oi_name = ''24K Royal Heritage Necklace'',
             oi_price = 54999, oi_quantity = JNum 2\<rparr>]"
    by (simp add: snapshotCart_def sample_store_def sample_session_def sample_product_def find_product_def)
  have d: "detailedCart (products_file sample_store) (cart_or_empty (cart sample_session))
      = [\<lparr>li_product = sample_product, li_quantity = JNum 2, lineTotal = JNum 109998\<rparr>]"
    by (simp add: detailedCart_def sample_store_def sample_session_def sample_product_def find_product_def)
  have o: "orders_file sample_store = []"
    by (simp add: sample_store_def)
  show ?thesis
    using checkout_clears_cart_iff_fields [OF u, of sample_body "''1700000000000''" "''2023-11-14T22:13:20.000Z''" sample_store]
      checkout_clears_cart_iff_fields [OF u, of "sample_body\<lparr>b_address := Some ''''\<rparr>" "''1700000000000''" "''2023-11-14T22:13:20.000Z''" sample_store]
      ok bad
    by (simp add: s d o order_total_def cart_total_def)
qed

text \<open>
  Claim C10. For a logged-in session whose cart is empty (or was never assigned),
  \<^verbatim>\<open>POST /checkout\<close> with the six fields present still appends an order, with no
  items and total \<open>0\<close>; only \<^verbatim>\<open>GET /checkout\<close> sends an empty cart back to the cart
  page.
\<close>

theorem empty_cart_order_created:
  assumes "user sess = Some u" and "cart_or_empty (cart sess) = []" and "\<not> field_missing body"
  shows "post_checkout now created body st sess =
           (Redirect ''/orders'', sess\<lparr>cart := Some []\<rparr>,
            st\<lparr>orders_file := orders_file st @ [newOrder now created body u [] (JNum 0)]\<rparr>)
         \<and> items (newOrder now created body u [] (JNum 0)) = []
         \<and> total (newOrder now created body u [] (JNum 0)) = JNum 0
         \<and> get_checkout st sess = Redirect ''/cart''"
proof -
  have "snapshotCart (products_file st) (cart_or_empty (cart sess)) = []"
    using assms(2) by (simp add: snapshotCart_def)
  then have "post_checkout now created body st sess =
           (Redirect ''/orders'', sess\<lparr>cart := Some []\<rparr>,
            st\<lparr>orders_file := orders_file st @ [newOrder now created body u [] (JNum 0)]\<rparr>)"
    using post_checkout_ok [OF assms(1) assms(3), of now created st] by (simp add: order_total_def)
  moreover have "get_checkout st sess = Redirect ''/cart''"
    using assms(1) assms(2) by (simp add: get_checkout_def)
  ultimately show ?thesis by (simp add: newOrder_def)
qed

theorem empty_cart_order_created_witness:
  "post_checkout ''1700000000000'' ''2023-11-14T22:13:20.000Z'' sample_body sample_store
       (sample_session\<lparr>cart := None\<rparr>) =
     (Redirect ''/orders'', sample_session\<lparr>cart := Some []\<rparr>,
      sample_store\<lparr>orders_file :=
        [newOrder ''1700000000000'' ''2023-11-14T22:13:20.000Z'' sample_body sample_user [] (JNum 0)]\<rparr>)
   \<and> get_checkout sample_store (sample_session\<lparr>cart := None\<rparr>) = Redirect ''/cart''"
proof -
  have u: "user (sample_session\<lparr>cart := None\<rparr>) = Some sample_user"
    by (simp add: sample_session_def)
  have c: "cart_or_empty (cart (sample_session\<lparr>cart := None\<rparr>)) = []"
    by simp
  have ok: "\<not> field_missing sample_body"
    by (simp add: field_missing_def sample_body_def)
  show ?thesis
    using empty_cart_order_created [OF u c ok, of "''1700000000000''" "''2023-11-14T22:13:20.000Z''" sample_store]
    by (simp add: sample_store_def)
qed

section \<open>Loading fails open\<close>

text \<open>
  Claim C9. \<^verbatim>\<open>readJson\<close> returns the empty collection when the file cannot be read
  and when its text does not parse; an empty file is read as the text \<^verbatim>\<open>[]\<close>.
\<close>

theorem readJson_fails_open:
  "(file = None \<longrightarrow> readJson json_parse file = [])
   \<and> (\<forall>raw. file = Some raw \<and> raw \<noteq> [] \<and> json_parse raw = None \<longrightarrow> readJson json_parse file = [])
   \<and> (file = Some [] \<and> (json_parse ''[]'' = None \<or> json_parse ''[]'' = Some [])
        \<longrightarrow> readJson json_parse file = [])"
  by (auto simp: readJson_def split: option.splits)

theorem readJson_fails_open_witness:
  "readJson sample_parse None = []
   \<and> readJson sample_parse (Some ''not json'') = []
   \<and> readJson sample_parse (Some '''') = []"
  using readJson_fails_open [of None sample_parse]
    readJson_fails_open [of "Some ''not json''" sample_parse]
    readJson_fails_open [of "Some ''''" sample_parse]
  by (simp add: sample_parse_def)

section \<open>Displayed and committed totals\<close>

lemma totals_agree_from:
  "foldl (\<lambda>sum item. jadd sum (lineTotal item)) a (detailedCart prods c) =
   foldl (\<lambda>sum item. jadd sum (jmul (JNum (oi_price item)) (oi_quantity item))) a (snapshotCart prods c)"
proof (induction c arbitrary: a)
  case Nil
  show ?case by (simp add: detailedCart_def snapshotCart_def)
next
  case (Cons e es)
  have d: "detailedCart prods (e # es) = line_of prods e @ detailedCart prods es"
    by (rule detailedCart_Cons)
  have s: "snapshotCart prods (e # es) = copy_of prods e @ snapshotCart prods es"
    by (simp add: snapshotCart_def copy_of_def split: option.split)
  show ?case
    by (cases "find_product prods (productId e)") (simp_all add: d s line_of_find copy_of_def Cons.IH)
qed

lemma totals_agree: "cart_total (detailedCart prods c) = order_total (snapshotCart prods c)"
  by (simp add: cart_total_def order_total_def totals_agree_from)

text \<open>
  Claim C3. On the same cart and product collection the total of the cart view and
  of the checkout view is the total stored in the order that \<^verbatim>\<open>POST /checkout\<close>
  appends: the materialization with product references and the one with copied
  fields have equal totals.
\<close>

theorem displayed_total_is_order_total:
  assumes "user sess = Some u" and "\<not> field_missing body"
  shows "cart_total (detailedCart (products_file st) (cart_or_empty (cart sess)))
           = order_total (snapshotCart (products_file st) (cart_or_empty (cart sess)))
       \<and> get_cart st sess =
           Render_cart (detailedCart (products_file st) (cart_or_empty (cart sess)))
             (total (last (orders_file (snd (snd (post_checkout now created body st sess))))))
       \<and> (cart_or_empty (cart sess) \<noteq> [] \<longrightarrow>
            get_checkout st sess =
              Render_checkout (detailedCart (products_file st) (cart_or_empty (cart sess)))
                (total (last (orders_file (snd (snd (post_checkout now created body st sess))))))
                None)"
proof -
  have t: "total (last (orders_file (snd (snd (post_checkout now created body st sess)))))
      = cart_total (detailedCart (products_file st) (cart_or_empty (cart sess)))"
    using assms by (simp add: post_checkout_ok newOrder_def totals_agree)
  have g: "get_cart st sess =
           Render_cart (detailedCart (products_file st) (cart_or_empty (cart sess)))
             (cart_total (detailedCart (products_file st) (cart_or_empty (cart sess))))"
    by (simp add: get_cart_def Let_def)
  have c: "cart_or_empty (cart sess) \<noteq> [] \<Longrightarrow> get_checkout st sess =
              Render_checkout (detailedCart (products_file st) (cart_or_empty (cart sess)))
                (cart_total (detailedCart (products_file st) (cart_or_empty (cart sess)))) None"
    using assms(1) by (simp add: get_checkout_def Let_def)
  show ?thesis
    using g c by (simp only: t totals_agree) simp
qed

theorem displayed_total_is_order_total_witness:
  "get_cart sample_store sample_session =
     Render_cart [\<lparr>li_product = sample_product, li_quantity = JNum 2, lineTotal = JNum 109998\<rparr>]
       (JNum 109998)
   \<and> total (last (orders_file (snd (snd (post_checkout ''1700000000000'' ''2023-11-14T22:13:20.000Z''
        sample_body sample_store sample_session))))) = JNum 109998"
proof -
  have u: "user sample_session = Some sample_user"
    by (simp add: sample_session_def)
  have ok: "\<not> field_missing sample_body"
    by (simp add: field_missing_def sample_body_def)
  have d: "detailedCart (products_file sample_store) (cart_or_empty (cart sample_session))
      = [\<lparr>li_product = sample_product, li_quantity = JNum 2, lineTotal = JNum 109998\<rparr>]"
    by (simp add: detailedCart_def sample_store_def sample_session_def sample_product_def find_product_def)
  have g: "get_cart sample_store sample_session =
     Render_cart [\<lparr>li_product = sample_product, li_quantity = JNum 2, lineTotal = JNum 109998\<rparr>]
       (JNum 109998)"
    by (simp add: get_cart_def Let_def d cart_total_def)
  show ?thesis
    using displayed_total_is_order_total [OF u ok, of sample_store "''1700000000000''" "''2023-11-14T22:13:20.000Z''"] g
    by (simp add: d)
qed

section \<open>Orders hold copies\<close>

lemma snapshotCart_concat: "snapshotCart prods c = concat (map (copy_of prods) c)"
  by (induction c) (simp_all add: snapshotCart_def copy_of_def split: option.split)

lemma get_orders_products_file:
  "get_orders (st\<lparr>products_file := prods'\<rparr>) sess = get_orders st sess"
  by (simp add: get_orders_def split: option.split)

text \<open>
  Claim C4. The order that \<^verbatim>\<open>POST /checkout\<close> appends holds, for each cart entry whose
  product resolves, copies of the product's id, name and price and of the entry's
  quantity as they are at that request, and the total of these copies. Whatever
  the product collection becomes afterwards, the order collection, and so the
  items and total of the order and what \<^verbatim>\<open>GET /orders\<close> shows, stay as they are.
\<close>

theorem order_items_are_snapshots:
  assumes "user sess = Some u" and "\<not> field_missing body"
    and "post_checkout now created body st sess = (r, sess', st')"
  shows "orders_file st' = orders_file st @ [last (orders_file st')]
       \<and> items (last (orders_file st'))
           = concat (map (copy_of (products_file st)) (cart_or_empty (cart sess)))
       \<and> total (last (orders_file st')) = order_total (items (last (orders_file st')))
       \<and> orders_file (st'\<lparr>products_file := prods'\<rparr>) = orders_file st'
       \<and> get_orders (st'\<lparr>products_file := prods'\<rparr>) sess' = get_orders st' sess'"
proof -
  have "post_checkout now created body st sess =
     (Redirect ''/orders'', sess\<lparr>cart := Some []\<rparr>,
      st\<lparr>orders_file := orders_file st @
           [newOrder now created body u
              (snapshotCart (products_file st) (cart_or_empty (cart sess)))
              (order_total (snapshotCart (products_file st) (cart_or_empty (cart sess))))]\<rparr>)"
    using assms(1) assms(2) by (rule post_checkout_ok)
  with assms(3) have st': "st' = st\<lparr>orders_file := orders_file st @
           [newOrder now created body u
              (snapshotCart (products_file st) (cart_or_empty (cart sess)))
              (order_total (snapshotCart (products_file st) (cart_or_empty (cart sess))))]\<rparr>"
    by simp
  show ?thesis
    by (simp add: st' newOrder_def snapshotCart_concat get_orders_products_file)
qed

theorem order_items_are_snapshots_witness:
  "orders_file (snd (snd (post_checkout ''1700000000000'' ''2023-11-14T22:13:20.000Z''
        sample_body sample_store sample_session))
        \<lparr>products_file := edit_product ''G24N001'' ''Renamed'' 1 (products_file sample_store)\<rparr>)
     = [newOrder ''1700000000000'' ''2023-11-14T22:13:20.000Z'' sample_body sample_user
           [\<lparr>oi_productId = ''G24N001'', oi_name = ''24K Royal Heritage Necklace'',
             oi_price = 54999, oi_quantity = JNum 2\<rparr>] (JNum 109998)]
   \<and> get_cart (sample_store\<lparr>products_file := edit_product ''G24N001'' ''Renamed'' 1 (products_file sample_store)\<rparr>)
        sample_session
     = Render_cart [\<lparr>li_product = sample_product\<lparr>p_name := ''Renamed'', p_price := 1\<rparr>,
                     li_quantity = JNum 2, lineTotal = JNum 2\<rparr>] (JNum 2)"
proof -
  have u: "user sample_session = Some sample_user"
    by (simp add: sample_session_def)
  have ok: "\<not> field_missing sample_body"
    by (simp add: field_missing_def sample_body_def)
  obtain r sess' st' where p: "post_checkout ''1700000000000'' ''2023-11-14T22:13:20.000Z''
        sample_body sample_store sample_session = (r, sess', st')"
    by (cases "post_checkout ''1700000000000'' ''2023-11-14T22:13:20.000Z''
        sample_body sample_store sample_session") auto
  have o: "orders_file sample_store = []"
    by (simp add: sample_store_def)
  have c: "concat (map (copy_of (products_file sample_store)) (cart_or_empty (cart sample_session)))
      = [\<lparr>oi_productId = ''G24N001'', oi_name = ''24K Royal Heritage Necklace'',
             oi_price = 54999, oi_quantity = JNum 2\<rparr>]"
    by (simp add: copy_of_def sample_store_def sample_session_def sample_product_def find_product_def)
  have n: "last (orders_file st') = newOrder ''1700000000000'' ''2023-11-14T22:13:20.000Z'' sample_body sample_user
           [\<lparr>oi_productId = ''G24N001'', oi_name = ''24K Royal Heritage Necklace'',
             oi_price = 54999, oi_quantity = JNum 2\<rparr>] (JNum 109998)"
    using p u ok by (auto simp add: post_checkout_ok o snapshotCart_concat c order_total_def)
  have g: "get_cart (sample_store\<lparr>products_file := edit_product ''G24N001'' ''Renamed'' 1 (products_file sample_store)\<rparr>)
        sample_session
     = Render_cart [\<lparr>li_product = sample_product\<lparr>p_name := ''Renamed'', p_price := 1\<rparr>,
                     li_quantity = JNum 2, lineTotal = JNum 2\<rparr>] (JNum 2)"
    by (simp add: get_cart_def Let_def detailedCart_def cart_total_def edit_product_def
        sample_store_def sample_session_def sample_product_def find_product_def)
  show ?thesis
    using order_items_are_snapshots [OF u ok p,
        of "edit_product ''G24N001'' ''Renamed'' 1 (products_file sample_store)"] g
    by (simp add: p o n)
qed

section \<open>Adding to the cart\<close>

lemma parseInt_0: "parseInt ''0'' = JNum 0"
  by (simp add: parseInt_def is_ws_def is_digit_def digits_value_def)

lemma parseInt_1: "parseInt ''1'' = JNum 1"
  by (simp add: parseInt_def is_ws_def is_digit_def digits_value_def)

lemma parseInt_2: "parseInt ''2'' = JNum 2"
  by (simp add: parseInt_def is_ws_def is_digit_def digits_value_def)

lemma parseInt_abc: "parseInt ''abc'' = NaN"
  by (simp add: parseInt_def is_ws_def is_digit_def digits_value_def)

lemma parseInt_minus_5: "parseInt ''-5'' = JNum (- 5)"
  by (simp add: parseInt_def is_ws_def is_digit_def digits_value_def)

lemma parseInt_empty: "parseInt '''' = NaN"
  by (simp add: parseInt_def)

text \<open>
  Claim C5. The claim asks that \<^verbatim>\<open>POST /cart/add/:id\<close> store an integer quantity of at
  least 1 for every quantity string. The handler stores what \<^verbatim>\<open>parseInt\<close> returns:
  \<open>NaN\<close> for \<^verbatim>\<open>abc\<close>, \<open>0\<close> for \<^verbatim>\<open>0\<close> and \<open>-5\<close> for \<^verbatim>\<open>-5\<close>. Only an absent or empty
  field gets the default 1.
\<close>

theorem cart_add_stores_unchecked_quantity:
  "post_cart_add None ''G24N001'' (Some ''abc'') = [\<lparr>productId = ''G24N001'', quantity = NaN\<rparr>]
   \<and> post_cart_add None ''G24N001'' (Some ''0'') = [\<lparr>productId = ''G24N001'', quantity = JNum 0\<rparr>]
   \<and> post_cart_add None ''G24N001'' (Some ''-5'') = [\<lparr>productId = ''G24N001'', quantity = JNum (- 5)\<rparr>]
   \<and> post_cart_add None ''G24N001'' None = [\<lparr>productId = ''G24N001'', quantity = JNum 1\<rparr>]
   \<and> post_cart_add None ''G24N001'' (Some '''') = [\<lparr>productId = ''G24N001'', quantity = JNum 1\<rparr>]
   \<and> \<not> valid_quantity NaN \<and> \<not> valid_quantity (JNum 0) \<and> \<not> valid_quantity (JNum (- 5))"
  by (simp add: post_cart_add_def parseInt_abc parseInt_0 parseInt_minus_5 parseInt_1)

lemma add_entry_new:
  "pid \<notin> productId ` set c \<Longrightarrow> add_entry c pid q = c @ [\<lparr>productId = pid, quantity = q\<rparr>]"
  by (induction c) auto

lemma bump_absent:
  "pid \<notin> productId ` set c \<Longrightarrow>
   map (\<lambda>e. if productId e = pid then e\<lparr>quantity := g (quantity e)\<rparr> else e) c = c"
  by (induction c) auto

lemma add_entry_existing:
  "distinct (map productId c) \<Longrightarrow> pid \<in> productId ` set c \<Longrightarrow>
   add_entry c pid q = map (\<lambda>e. if productId e = pid then e\<lparr>quantity := jadd (quantity e) q\<rparr> else e) c"
proof (induction c)
  case Nil
  then show ?case by simp
next
  case (Cons e es)
  show ?case
  proof (cases "productId e = pid")
    case True
    with Cons.prems have "pid \<notin> productId ` set es" by auto
    then have "map (\<lambda>e. if productId e = pid then e\<lparr>quantity := jadd (quantity e) q\<rparr> else e) es = es"
      by (rule bump_absent)
    with True show ?thesis by simp
  next
    case False
    with Cons show ?thesis by auto
  qed
qed

lemma add_entry_ids:
  "map productId (add_entry c pid q) =
     (if pid \<in> productId ` set c then map productId c else map productId c @ [pid])"
  by (induction c) auto

lemma add_entry_distinct:
  "distinct (map productId c) \<Longrightarrow> distinct (map productId (add_entry c pid q))"
  by (simp add: add_entry_ids)

lemma add_entry_others:
  "filter (\<lambda>e. productId e \<noteq> pid) (add_entry c pid q) = filter (\<lambda>e. productId e \<noteq> pid) c"
  by (induction c) auto

lemma one_entry_per_id:
  "distinct (map productId c) \<Longrightarrow> pid \<in> productId ` set c \<Longrightarrow>
   length (filter (\<lambda>e. productId e = pid) c) = 1"
proof (induction c)
  case Nil
  then show ?case by simp
next
  case (Cons e es)
  show ?case
  proof (cases "productId e = pid")
    case True
    with Cons.prems have "pid \<notin> productId ` set es" by auto
    then have "filter (\<lambda>e. productId e = pid) es = []"
      by (auto simp: filter_empty_conv)
    with True show ?thesis by simp
  next
    case False
    with Cons show ?thesis by auto
  qed
qed

lemma add_entry_twice:
  "add_entry (add_entry c pid q1) pid q2 = add_entry c pid (jadd q1 q2)"
  by (induction c) (auto simp: jadd_assoc)

lemma update_entry_id: "productId (update_entry m e) = productId e"
  by (simp add: update_entry_def Let_def split: property.split)

lemma post_cart_update_ids:
  "map productId (post_cart_update sc bq) = map productId (cart_or_empty sc)"
  by (induction "cart_or_empty sc" arbitrary: sc)
     (simp_all add: post_cart_update_def update_entry_id comp_def)

text \<open>The cart handlers keep the product ids of the cart distinct.\<close>

lemma cart_handlers_keep_ids_distinct:
  assumes "distinct (map productId (cart_or_empty sc))"
  shows "distinct (map productId (post_cart_add sc pid s))"
    and "distinct (map productId (post_cart_remove sc pid))"
    and "distinct (map productId (post_cart_update sc bq))"
proof -
  show "distinct (map productId (post_cart_add sc pid s))"
    using assms by (simp add: post_cart_add_def add_entry_distinct)
  show "distinct (map productId (post_cart_remove sc pid))"
    using assms by (simp add: post_cart_remove_def distinct_map_filter)
  have "map productId (post_cart_update sc bq) = map productId (cart_or_empty sc)"
    by (rule post_cart_update_ids)
  then show "distinct (map productId (post_cart_update sc bq))"
    using assms by simp
qed

text \<open>
  Claim C7, as stated, at a cart that already holds the product with quantity 3:
  adding 1 and then 2 gives quantity 6, not 1 + 2.
\<close>

theorem cart_add_twice_counterexample:
  "post_cart_add (Some (post_cart_add (Some [\<lparr>productId = ''G24N001'', quantity = JNum 3\<rparr>])
                     ''G24N001'' (Some ''1''))) ''G24N001'' (Some ''2'')
     = [\<lparr>productId = ''G24N001'', quantity = JNum 6\<rparr>]
   \<and> jadd (parseInt ''1'') (parseInt ''2'') = JNum 3
   \<and> JNum 6 \<noteq> JNum 3"
  by (simp add: post_cart_add_def parseInt_1 parseInt_2)

text \<open>
  Claim C7, amended. For a cart with at most one entry per product id (every cart
  the handlers build), two adds of the same product id with quantities \<open>q1\<close> and
  \<open>q2\<close> give a cart with exactly one entry for it: appended at the end with
  quantity \<open>q1 + q2\<close> when the id was new, and otherwise in its old place with its
  old quantity plus \<open>q1\<close> plus \<open>q2\<close>. The other entries and their order are kept.
\<close>

theorem cart_add_twice_merges:
  assumes "distinct (map productId (cart_or_empty sc))"
  shows "(let c = cart_or_empty sc;
              q1 = parseInt (or_default sa ''1'');
              q2 = parseInt (or_default sb ''1'');
              c2 = post_cart_add (Some (post_cart_add sc pid sa)) pid sb
          in (pid \<notin> productId ` set c \<longrightarrow> c2 = c @ [\<lparr>productId = pid, quantity = jadd q1 q2\<rparr>])
           \<and> (pid \<in> productId ` set c \<longrightarrow>
                c2 = map (\<lambda>e. if productId e = pid
                               then e\<lparr>quantity := jadd (quantity e) (jadd q1 q2)\<rparr> else e) c)
           \<and> length (filter (\<lambda>e. productId e = pid) c2) = 1
           \<and> filter (\<lambda>e. productId e \<noteq> pid) c2 = filter (\<lambda>e. productId e \<noteq> pid) c
           \<and> distinct (map productId c2))"
proof -
  define c where "c = cart_or_empty sc"
  define q1 where "q1 = parseInt (or_default sa ''1'')"
  define q2 where "q2 = parseInt (or_default sb ''1'')"
  define c2 where "c2 = post_cart_add (Some (post_cart_add sc pid sa)) pid sb"
  have d: "distinct (map productId c)"
    using assms by (simp add: c_def)
  have c2: "c2 = add_entry c pid (jadd q1 q2)"
    by (simp add: c2_def post_cart_add_def c_def q1_def q2_def add_entry_twice)
  have new: "pid \<notin> productId ` set c \<Longrightarrow> c2 = c @ [\<lparr>productId = pid, quantity = jadd q1 q2\<rparr>]"
    by (simp add: c2 add_entry_new)
  have old: "pid \<in> productId ` set c \<Longrightarrow>
      c2 = map (\<lambda>e. if productId e = pid then e\<lparr>quantity := jadd (quantity e) (jadd q1 q2)\<rparr> else e) c"
    using d by (simp add: c2 add_entry_existing)
  have d2: "distinct (map productId c2)"
    using d by (simp add: c2 add_entry_distinct)
  have "pid \<in> productId ` set c2"
  proof -
    have "pid \<in> set (map productId c2)"
      by (simp only: c2 add_entry_ids) simp
    then show ?thesis by simp
  qed
  with d2 have one: "length (filter (\<lambda>e. productId e = pid) c2) = 1"
    by (rule one_entry_per_id)
  have others: "filter (\<lambda>e. productId e \<noteq> pid) c2 = filter (\<lambda>e. productId e \<noteq> pid) c"
    by (simp add: c2 add_entry_others)
  from new old one others d2 show ?thesis
    unfolding Let_def c_def [symmetric] q1_def [symmetric] q2_def [symmetric] c2_def [symmetric]
    by blast
qed

theorem cart_add_twice_merges_witness:
  "post_cart_add (Some (post_cart_add (Some [\<lparr>productId = ''S925B001'', quantity = JNum 4\<rparr>])
                     ''G24N001'' (Some ''1''))) ''G24N001'' (Some ''2'')
     = [\<lparr>productId = ''S925B001'', quantity = JNum 4\<rparr>, \<lparr>productId = ''G24N001'', quantity = JNum 3\<rparr>]"
proof -
  have d: "distinct (map productId (cart_or_empty (Some [\<lparr>productId = ''S925B001'', quantity = JNum 4\<rparr>])))"
    by simp
  show ?thesis
    using cart_add_twice_merges [OF d, where pid = "''G24N001''" and sa = "Some ''1''" and sb = "Some ''2''"]
    by (simp add: Let_def parseInt_1 parseInt_2)
qed

section \<open>Updating quantities\<close>

lemma clamp_positive: "jgt (if jgt q (JNum 0) then q else JNum 1) (JNum 0)"
  by (cases q) simp_all

lemma parseInt_inherited: "parseInt (inherited_text k) = NaN"
  by (simp add: inherited_text_def parseInt_def is_ws_def is_digit_def)

lemma update_entry_absent:
  "m (productId e) = None \<Longrightarrow> productId e \<notin> set object_prototype_keys \<Longrightarrow> update_entry m e = e"
  by (simp add: update_entry_def get_property_def)

lemma update_entry_empty: "m (productId e) = Some [] \<Longrightarrow> update_entry m e = e"
  by (simp add: update_entry_def get_property_def)

lemma update_entry_submitted:
  "m (productId e) = Some s \<Longrightarrow> s \<noteq> [] \<Longrightarrow>
   update_entry m e = e\<lparr>quantity := (if jgt (parseInt s) (JNum 0) then parseInt s else JNum 1)\<rparr>"
  by (simp add: update_entry_def get_property_def Let_def)

lemma update_entry_inherited:
  "m (productId e) = None \<Longrightarrow> productId e \<in> set object_prototype_keys \<Longrightarrow>
   update_entry m e = e\<lparr>quantity := JNum 1\<rparr>"
  by (simp add: update_entry_def get_property_def Let_def parseInt_inherited)

lemma update_entry_keeps_positive:
  "jgt (quantity e) (JNum 0) \<Longrightarrow> jgt (quantity (update_entry m e)) (JNum 0)"
  by (simp add: update_entry_def Let_def clamp_positive split: property.split)

text \<open>
  Claim C6, as stated, fails at three inputs. An entry with quantity 5 whose
  submitted value is the empty string keeps 5: its id is in the map, yet it gets
  neither a parsed value nor 1. An entry that \<^verbatim>\<open>POST /cart/add/:id\<close> stored with
  quantity 0 is still 0 after an update that does not name it. And an entry whose
  product id is \<^verbatim>\<open>constructor\<close> is set to 1 by an update that submits no map at all.
\<close>

theorem cart_update_counterexample:
  "post_cart_update (Some [\<lparr>productId = ''G24N001'', quantity = JNum 5\<rparr>])
       (Some [''G24N001'' \<mapsto> ''''])
     = [\<lparr>productId = ''G24N001'', quantity = JNum 5\<rparr>]
   \<and> \<not> jgt (parseInt '''') (JNum 0)
   \<and> JNum 5 \<noteq> JNum 1
   \<and> post_cart_update (Some (post_cart_add None ''G24N001'' (Some ''0''))) (Some Map.empty)
     = [\<lparr>productId = ''G24N001'', quantity = JNum 0\<rparr>]
   \<and> jle (JNum 0) (JNum 0)
   \<and> post_cart_update (Some (post_cart_add None ''constructor'' (Some ''5''))) None
     = [\<lparr>productId = ''constructor'', quantity = JNum 1\<rparr>]
   \<and> post_cart_add None ''constructor'' (Some ''5'')
     = [\<lparr>productId = ''constructor'', quantity = JNum 5\<rparr>]"
proof -
  have a: "update_entry [''G24N001'' \<mapsto> ''''] \<lparr>productId = ''G24N001'', quantity = JNum 5\<rparr>
      = \<lparr>productId = ''G24N001'', quantity = JNum 5\<rparr>"
    by (rule update_entry_empty) simp
  have b: "update_entry Map.empty \<lparr>productId = ''G24N001'', quantity = JNum 0\<rparr>
      = \<lparr>productId = ''G24N001'', quantity = JNum 0\<rparr>"
    by (rule update_entry_absent) (simp_all add: object_prototype_keys_def)
  have c: "update_entry Map.empty \<lparr>productId = ''constructor'', quantity = JNum 5\<rparr>
      = \<lparr>productId = ''constructor'', quantity = JNum 5\<rparr>\<lparr>quantity := JNum 1\<rparr>"
    by (rule update_entry_inherited) (simp_all add: object_prototype_keys_def)
  have p5: "parseInt ''5'' = JNum 5"
    by (simp add: parseInt_def is_ws_def is_digit_def digits_value_def)
  show ?thesis
    by (simp add: post_cart_update_def post_cart_add_def a b c p5 parseInt_0 parseInt_empty)
qed

text \<open>
  Claim C6, amended. \<^verbatim>\<open>POST /cart/update\<close> keeps the product ids of the cart and
  their order (no entry is created). An entry whose id is not in the submitted map
  is unchanged, unless the id is the name of a property every object inherits
  (\<^verbatim>\<open>constructor\<close>, \<^verbatim>\<open>toString\<close>, \<^verbatim>\<open>__proto__\<close> and the like), about which nothing is
  said. An entry whose submitted value is the empty string is unchanged. An entry
  with a non-empty submitted value gets the parsed value when it is a number above
  0 and 1 otherwise, so its quantity is above 0. An entry whose quantity was above
  0 before the update has a quantity above 0 after it.
\<close>

theorem cart_update_entries:
  "map productId (post_cart_update sc bq) = map productId (cart_or_empty sc)
   \<and> (\<forall>i < length (cart_or_empty sc).
         (quantities_of bq (productId (cart_or_empty sc ! i)) = None
            \<and> productId (cart_or_empty sc ! i) \<notin> set object_prototype_keys
          \<longrightarrow> post_cart_update sc bq ! i = cart_or_empty sc ! i)
       \<and> (quantities_of bq (productId (cart_or_empty sc ! i)) = Some []
          \<longrightarrow> post_cart_update sc bq ! i = cart_or_empty sc ! i)
       \<and> (\<forall>s. quantities_of bq (productId (cart_or_empty sc ! i)) = Some s \<and> s \<noteq> []
          \<longrightarrow> post_cart_update sc bq ! i =
                 (cart_or_empty sc ! i)
                   \<lparr>quantity := (if jgt (parseInt s) (JNum 0) then parseInt s else JNum 1)\<rparr>
              \<and> jgt (quantity (post_cart_update sc bq ! i)) (JNum 0))
       \<and> (jgt (quantity (cart_or_empty sc ! i)) (JNum 0)
          \<longrightarrow> jgt (quantity (post_cart_update sc bq ! i)) (JNum 0)))"
proof (intro conjI allI impI)
  show "map productId (post_cart_update sc bq) = map productId (cart_or_empty sc)"
    by (rule post_cart_update_ids)
next
  fix i
  assume i: "i < length (cart_or_empty sc)"
    and h: "quantities_of bq (productId (cart_or_empty sc ! i)) = None
            \<and> productId (cart_or_empty sc ! i) \<notin> set object_prototype_keys"
  from i have nth: "post_cart_update sc bq ! i = update_entry (quantities_of bq) (cart_or_empty sc ! i)"
    by (simp add: post_cart_update_def)
  from h show "post_cart_update sc bq ! i = cart_or_empty sc ! i"
    by (simp add: nth update_entry_absent)
next
  fix i
  assume i: "i < length (cart_or_empty sc)"
    and h: "quantities_of bq (productId (cart_or_empty sc ! i)) = Some []"
  from i have nth: "post_cart_update sc bq ! i = update_entry (quantities_of bq) (cart_or_empty sc ! i)"
    by (simp add: post_cart_update_def)
  from h show "post_cart_update sc bq ! i = cart_or_empty sc ! i"
    by (simp add: nth update_entry_empty)
next
  fix i s
  assume i: "i < length (cart_or_empty sc)"
    and h: "quantities_of bq (productId (cart_or_empty sc ! i)) = Some s \<and> s \<noteq> []"
  from i have nth: "post_cart_update sc bq ! i = update_entry (quantities_of bq) (cart_or_empty sc ! i)"
    by (simp add: post_cart_update_def)
  from h show u: "post_cart_update sc bq ! i =
                 (cart_or_empty sc ! i)
                   \<lparr>quantity := (if jgt (parseInt s) (JNum 0) then parseInt s else JNum 1)\<rparr>"
    by (simp add: nth update_entry_submitted)
  have "jgt (if jgt (parseInt s) (JNum 0) then parseInt s else JNum 1) (JNum 0)"
    by (rule clamp_positive)
  then show "jgt (quantity (post_cart_update sc bq ! i)) (JNum 0)"
    by (simp add: u)
next
  fix i
  assume i: "i < length (cart_or_empty sc)"
    and v: "jgt (quantity (cart_or_empty sc ! i)) (JNum 0)"
  from i have nth: "post_cart_update sc bq ! i = update_entry (quantities_of bq) (cart_or_empty sc ! i)"
    by (simp add: post_cart_update_def)
  from v show "jgt (quantity (post_cart_update sc bq ! i)) (JNum 0)"
    by (simp add: nth update_entry_keeps_positive)
qed

theorem cart_update_entries_witness:
  "post_cart_update
       (Some [\<lparr>productId = ''G24N001'', quantity = JNum 5\<rparr>,
              \<lparr>productId = ''S925B001'', quantity = JNum 4\<rparr>])
       (Some [''G24N001'' \<mapsto> ''-5'', ''D18R001'' \<mapsto> ''2''])
     = [\<lparr>productId = ''G24N001'', quantity = JNum 1\<rparr>,
        \<lparr>productId = ''S925B001'', quantity = JNum 4\<rparr>]"
proof -
  let ?sc = "Some [\<lparr>productId = ''G24N001'', quantity = JNum 5\<rparr>,
              \<lparr>productId = ''S925B001'', quantity = JNum 4\<rparr>]"
  let ?bq = "Some [''G24N001'' \<mapsto> ''-5'', ''D18R001'' \<mapsto> ''2'']"
  note inst = cart_update_entries [of ?sc ?bq]
  from inst have t: "map productId (post_cart_update ?sc ?bq) = map productId (cart_or_empty ?sc)"
    by (rule conjunct1)
  from inst have a: "\<forall>i < length (cart_or_empty ?sc).
         (quantities_of ?bq (productId (cart_or_empty ?sc ! i)) = None
            \<and> productId (cart_or_empty ?sc ! i) \<notin> set object_prototype_keys
          \<longrightarrow> post_cart_update ?sc ?bq ! i = cart_or_empty ?sc ! i)
       \<and> (quantities_of ?bq (productId (cart_or_empty ?sc ! i)) = Some []
          \<longrightarrow> post_cart_update ?sc ?bq ! i = cart_or_empty ?sc ! i)
       \<and> (\<forall>s. quantities_of ?bq (productId (cart_or_empty ?sc ! i)) = Some s \<and> s \<noteq> []
          \<longrightarrow> post_cart_update ?sc ?bq ! i =
                 (cart_or_empty ?sc ! i)
                   \<lparr>quantity := (if jgt (parseInt s) (JNum 0) then parseInt s else JNum 1)\<rparr>
              \<and> jgt (quantity (post_cart_update ?sc ?bq ! i)) (JNum 0))
       \<and> (jgt (quantity (cart_or_empty ?sc ! i)) (JNum 0)
          \<longrightarrow> jgt (quantity (post_cart_update ?sc ?bq ! i)) (JNum 0))"
    by (rule conjunct2)
  from t have "length (map productId (post_cart_update ?sc ?bq))
      = length (map productId (cart_or_empty ?sc))"
    by (rule arg_cong)
  then have len: "length (post_cart_update ?sc ?bq) = 2"
    by (simp only: length_map) simp
  have z: "(0::nat) < length (cart_or_empty ?sc)" and o: "(1::nat) < length (cart_or_empty ?sc)"
    by simp_all
  from a [rule_format, OF z] have e0:
    "post_cart_update ?sc ?bq ! 0 = \<lparr>productId = ''G24N001'', quantity = JNum 1\<rparr>"
    by (simp add: parseInt_minus_5)
  from a [rule_format, OF o] have e1:
    "post_cart_update ?sc ?bq ! 1 = \<lparr>productId = ''S925B001'', quantity = JNum 4\<rparr>"
    by (simp add: object_prototype_keys_def)
  from len obtain x y where xy: "post_cart_update ?sc ?bq = [x, y]"
    by (auto simp: numeral_2_eq_2 length_Suc_conv)
  from e0 e1 show ?thesis
    by (simp add: xy)
qed

section \<open>Metal pages\<close>

lemma strict_eq_JNum: "strict_eq (JNum a) q = (q = JNum a)"
  by (cases q) auto

lemma metal_filter_purity: "fst (metal_filter m prods q) = parseInt (or_default q ''0'')"
  by (simp add: metal_filter_def Let_def)

lemma metal_filter_all:
  "\<not> truthy_num (parseInt (or_default q ''0'')) \<Longrightarrow>
   snd (metal_filter m prods q) = filter (\<lambda>p. p_metal p = m) prods"
  by (simp add: metal_filter_def Let_def)

lemma metal_filter_exact:
  "truthy_num (parseInt (or_default q ''0'')) \<Longrightarrow>
   snd (metal_filter m prods q) =
     filter (\<lambda>p. p_metal p = m \<and> JNum (p_carat p) = parseInt (or_default q ''0'')) prods"
  by (auto simp: metal_filter_def Let_def strict_eq_JNum intro: filter_cong)

text \<open>
  Claim C8, as stated, fails at a purity parameter that is present, is not 0 and
  does not parse: \<^verbatim>\<open>GET /gold?carat=abc\<close> returns every gold product, none of whose
  purity equals the parsed value \<open>NaN\<close>.
\<close>

theorem metal_page_counterexample:
  "get_gold sample_store (Some ''abc'') =
     Render_metal_list
       \<lparr>pageTitle = ''Gold Jewellery'', heading = ''Gold Collection'',
        subtitle = ''Explore 24K, 22K and 18K inspired gold designs crafted for every occasion.'',
        metal = ''Gold'', caratFilter = NaN, products = [sample_product]\<rparr>
   \<and> parseInt ''abc'' = NaN
   \<and> \<not> strict_eq (JNum (p_carat sample_product)) (parseInt ''abc'')"
  by (simp add: get_gold_def metal_filter_def parseInt_abc sample_store_def sample_product_def)

text \<open>
  Claim C8, amended. Each metal page returns, in storage order, the products whose
  metal is the page's metal when the purity parameter is absent, empty, parses to 0
  or does not parse at all, and otherwise those of them whose purity equals the
  parsed value; the parsed value is shown as the carat filter.
\<close>

theorem metal_pages_filter:
  "(q = None \<or> q = Some [] \<or> parseInt (or_default q ''0'') = JNum 0
      \<or> parseInt (or_default q ''0'') = NaN
     \<longrightarrow> snd (metal_filter m prods q) = filter (\<lambda>p. p_metal p = m) prods)
   \<and> (\<forall>n. parseInt (or_default q ''0'') = JNum n \<and> n \<noteq> 0
     \<longrightarrow> snd (metal_filter m prods q) = filter (\<lambda>p. p_metal p = m \<and> p_carat p = n) prods)
   \<and> get_gold st q = Render_metal_list
       \<lparr>pageTitle = ''Gold Jewellery'', heading = ''Gold Collection'',
        subtitle = ''Explore 24K, 22K and 18K inspired gold designs crafted for every occasion.'',
        metal = ''Gold'', caratFilter = parseInt (or_default q ''0''),
        products = snd (metal_filter ''Gold'' (products_file st) q)\<rparr>
   \<and> get_silver st q = Render_metal_list
       \<lparr>pageTitle = ''Silver Jewellery'', heading = ''Silver Collection'',
        subtitle = ''Soft, versatile silver pieces for daily wear and gifting.'',
        metal = ''Silver'', caratFilter = parseInt (or_default q ''0''),
        products = snd (metal_filter ''Silver'' (products_file st) q)\<rparr>
   \<and> get_diamond st q = Render_metal_list
       \<lparr>pageTitle = ''Diamond Jewellery'', heading = ''Diamond Collection'',
        subtitle = ''Shimmering diamond-inspired designs to mark your milestones.'',
        metal = ''Diamond'', caratFilter = parseInt (or_default q ''0''),
        products = snd (metal_filter ''Diamond'' (products_file st) q)\<rparr>"
proof (intro conjI allI impI)
  assume h: "q = None \<or> q = Some [] \<or> parseInt (or_default q ''0'') = JNum 0
      \<or> parseInt (or_default q ''0'') = NaN"
  have "\<not> truthy_num (parseInt (or_default q ''0''))"
    using h by (auto simp: parseInt_0)
  then show "snd (metal_filter m prods q) = filter (\<lambda>p. p_metal p = m) prods"
    by (rule metal_filter_all)
next
  fix n
  assume h: "parseInt (or_default q ''0'') = JNum n \<and> n \<noteq> 0"
  then have "truthy_num (parseInt (or_default q ''0''))" by simp
  then have "snd (metal_filter m prods q) =
     filter (\<lambda>p. p_metal p = m \<and> JNum (p_carat p) = parseInt (or_default q ''0'')) prods"
    by (rule metal_filter_exact)
  with h show "snd (metal_filter m prods q) = filter (\<lambda>p. p_metal p = m \<and> p_carat p = n) prods"
    by simp
next
  show "get_gold st q = Render_metal_list
       \<lparr>pageTitle = ''Gold Jewellery'', heading = ''Gold Collection'',
        subtitle = ''Explore 24K, 22K and 18K inspired gold designs crafted for every occasion.'',
        metal = ''Gold'', caratFilter = parseInt (or_default q ''0''),
        products = snd (metal_filter ''Gold'' (products_file st) q)\<rparr>"
    by (simp add: get_gold_def split_beta metal_filter_purity)
next
  show "get_silver st q = Render_metal_list
       \<lparr>pageTitle = ''Silver Jewellery'', heading = ''Silver Collection'',
        subtitle = ''Soft, versatile silver pieces for daily wear and gifting.'',
        metal = ''Silver'', caratFilter = parseInt (or_default q ''0''),
        products = snd (metal_filter ''Silver'' (products_file st) q)\<rparr>"
    by (simp add: get_silver_def split_beta metal_filter_purity)
next
  show "get_diamond st q = Render_metal_list
       \<lparr>pageTitle = ''Diamond Jewellery'', heading = ''Diamond Collection'',
        subtitle = ''Shimmering diamond-inspired designs to mark your milestones.'',
        metal = ''Diamond'', caratFilter = parseInt (or_default q ''0''),
        products = snd (metal_filter ''Diamond'' (products_file st) q)\<rparr>"
    by (simp add: get_diamond_def split_beta metal_filter_purity)
qed

lemma parseInt_22: "parseInt ''22'' = JNum 22"
  by (simp add: parseInt_def is_ws_def is_digit_def digits_value_def)

theorem metal_pages_filter_witness:
  "get_gold sample_store (Some ''22'') =
     Render_metal_list
       \<lparr>pageTitle = ''Gold Jewellery'', heading = ''Gold Collection'',
        subtitle = ''Explore 24K, 22K and 18K inspired gold designs crafted for every occasion.'',
        metal = ''Gold'', caratFilter = JNum 22, products = []\<rparr>
   \<and> snd (metal_filter ''Gold'' (products_file sample_store) None) = [sample_product]"
proof -
  have p: "parseInt (or_default (Some ''22'') ''0'') = JNum 22 \<and> (22::int) \<noteq> 0"
    by (simp add: parseInt_22)
  have a: "snd (metal_filter ''Gold'' (products_file sample_store) (Some ''22'')) = []"
    using metal_pages_filter [where q = "Some ''22''" and m = "''Gold''"
        and prods = "products_file sample_store" and st = sample_store] p
    by (simp add: sample_store_def sample_product_def)
  have b: "snd (metal_filter ''Gold'' (products_file sample_store) None) = [sample_product]"
    using metal_pages_filter [where q = None and m = "''Gold''"
        and prods = "products_file sample_store" and st = sample_store]
    by (simp add: sample_store_def sample_product_def)
  show ?thesis
    using metal_pages_filter [where q = "Some ''22''" and m = "''Gold''"
        and prods = "products_file sample_store" and st = sample_store] a b
    by (simp add: parseInt_22)
qed

end
